theory Spec2Isabelle
  imports Main "HOL-Library.Word"
begin

unbundle bit_operations_syntax

section \<open>Go values: panics, errors, durations\<close>

text \<open>
  A Go function of this repository ends in one of three ways: it returns its values, it
  returns a non-nil \<^verbatim>\<open>error\<close> value, or it panics (an explicit \<^verbatim>\<open>panic(msg)\<close>, a nil
  pointer dereference, an index out of range). Panics and errors are kept apart: a panic
  unwinds the caller, an error is a value the caller inspects.
\<close>

datatype panic =
    PanicMsg string
  | NilPointerDereference
  | IndexOutOfRange
  | SliceBoundsOutOfRange

text \<open>
  \<^verbatim>\<open>Hbar\<close> wraps a signed 64-bit count of tinybars. No function modelled here does
  arithmetic on it (only comparisons and copies), so the count is an \<open>int\<close>; the one
  place where a 64-bit conversion changes a value (\<^verbatim>\<open>int64(...)\<close> of the unsigned
  header cost) is written out with \<open>sint\<close> on a \<open>64 word\<close>.
\<close>

record Hbar =
  tinybar :: int

definition HbarFromTinybar :: "int \<Rightarrow> Hbar" where
  "HbarFromTinybar n = \<lparr>tinybar = n\<rparr>"

definition Hbar_zero :: Hbar where
  "Hbar_zero = \<lparr>tinybar = 0\<rparr>"

text \<open>An argument of a formatted error message.\<close>

datatype fmtarg = ArgInt int | ArgStr string

datatype error =
    ErrNoClientProvided
  | ErrMaxQueryPaymentExceeded Hbar Hbar string
  | ErrHttpStatus int
  | ErrBadKey string "fmtarg list"
  | ErrHexLength
  | ErrHexInvalidByte char
  | ErrExternal string

text \<open>
  \<^verbatim>\<open>time.Duration\<close> is a count of nanoseconds; \<^verbatim>\<open>d.Nanoseconds()\<close> is that count.
\<close>

type_synonym Duration = int

definition Millisecond :: Duration where
  "Millisecond = 1000000"

definition Second :: Duration where
  "Second = 1000000000"

section \<open>The query object and its backoff setters (account\_info\_query.go)\<close>

record AccountID =
  Shard :: nat
  Realm :: nat
  Account :: nat

definition AccountID_zero :: AccountID where
  "AccountID_zero = \<lparr>Shard = 0, Realm = 0, Account = 0\<rparr>"

record TransactionID =
  TxAccountID :: "AccountID option"
  ValidStart :: int

definition TransactionID_zero :: TransactionID where
  "TransactionID_zero = \<lparr>TxAccountID = None, ValidStart = 0\<rparr>"

text \<open>
  \<^verbatim>\<open>*services.Transaction\<close> is a protobuf message declared outside the repository. A
  payment transaction is represented by the values \<^verbatim>\<open>_QueryMakePaymentTransaction\<close> is
  called with.
\<close>

record Transaction =
  PayTransactionID :: TransactionID
  PayNodeAccountID :: AccountID
  PayAmount :: Hbar

text \<open>
  The embedded \<^verbatim>\<open>Query\<close> struct, with the fields the functions of
  \<^verbatim>\<open>account_info_query.go\<close> read and write. \<^verbatim>\<open>minBackoff\<close> and \<^verbatim>\<open>maxBackoff\<close> are
  pointers (\<^verbatim>\<open>*time.Duration\<close>): \<open>None\<close> is the nil pointer.
\<close>

record Query =
  nodeAccountIDs :: "AccountID list"
  queryPayment :: Hbar
  maxQueryPayment :: Hbar
  paymentTransactionID :: TransactionID
  paymentTransactions :: "Transaction list"
  nextPaymentTransactionIndex :: nat
  minBackoff :: "Duration option"
  maxBackoff :: "Duration option"

record AccountInfoQuery = Query +
  accountID :: "AccountID option"

definition SetMaxBackoff :: "AccountInfoQuery \<Rightarrow> Duration \<Rightarrow> panic + AccountInfoQuery" where
  "SetMaxBackoff query mx =
     (if mx < 0 then Inl (PanicMsg ''maxBackoff must be a positive duration'')
      else (case minBackoff query of
              None \<Rightarrow> Inl NilPointerDereference
            | Some mn \<Rightarrow>
                if mx < mn
                then Inl (PanicMsg ''maxBackoff must be greater than or equal to minBackoff'')
                else Inr (query\<lparr>maxBackoff := Some mx\<rparr>)))"

definition GetMaxBackoff :: "AccountInfoQuery \<Rightarrow> Duration" where
  "GetMaxBackoff query = (case maxBackoff query of Some d \<Rightarrow> d | None \<Rightarrow> 8 * Second)"

definition SetMinBackoff :: "AccountInfoQuery \<Rightarrow> Duration \<Rightarrow> panic + AccountInfoQuery" where
  "SetMinBackoff query mn =
     (if mn < 0 then Inl (PanicMsg ''minBackoff must be a positive duration'')
      else (case maxBackoff query of
              None \<Rightarrow> Inl NilPointerDereference
            | Some mx \<Rightarrow>
                if mx < mn
                then Inl (PanicMsg ''minBackoff must be less than or equal to maxBackoff'')
                else Inr (query\<lparr>minBackoff := Some mn\<rparr>)))"

definition GetMinBackoff :: "AccountInfoQuery \<Rightarrow> Duration" where
  "GetMinBackoff query = (case minBackoff query of Some d \<Rightarrow> d | None \<Rightarrow> 250 * Millisecond)"

text \<open>
  Modelled from the spec: the retry loop that computes the backoff (\<^verbatim>\<open>_Execute\<close>) is in
  another file of the repository. The spec's Retry state reads: compute next backoff as
  \<^verbatim>\<open>min(maxBackoff, currentBackoff * 2)\<close> starting from \<^verbatim>\<open>minBackoff\<close>. \<open>backoff mn mx i\<close>
  is the backoff after \<open>i\<close> retries of one call.
\<close>

fun backoff :: "Duration \<Rightarrow> Duration \<Rightarrow> nat \<Rightarrow> Duration" where
  "backoff mn mx 0 = mn"
| "backoff mn mx (Suc i) = min mx (backoff mn mx i * 2)"

text \<open>The configured bounds of a query are well formed.\<close>

definition backoff_ok :: "AccountInfoQuery \<Rightarrow> bool" where
  "backoff_ok query = (0 \<le> GetMinBackoff query \<and> GetMinBackoff query \<le> GetMaxBackoff query)"

section \<open>Cost estimation and payment ceiling (account\_info\_query.go)\<close>

record Operator =
  OperatorAccountID :: AccountID

record Client =
  operator :: "Operator option"
  clientMaxQueryPayment :: Hbar
  autoValidateChecksums :: bool
  mirrorNetwork :: "string list"

text \<open>
  The node's answer as \<^verbatim>\<open>GetCost\<close> and \<^verbatim>\<open>Execute\<close> read it: the header's \<^verbatim>\<open>Cost\<close>, an
  unsigned 64-bit field of the protobuf response header, and the encoded account info.
\<close>

record Response =
  Cost :: "64 word"
  AccountInfoPb :: string

text \<open>
  What a call does to the outside world, in order: the cost probe and the paid request
  sent through \<^verbatim>\<open>_Execute\<close>, the payments generated for an amount, a sleep, an HTTP GET.
\<close>

datatype effect =
    CostProbe
  | GeneratePayments Hbar
  | PaidRequest
  | Sleep Duration
  | HttpGet string

text \<open>
  The collaborators of \<^verbatim>\<open>account_info_query.go\<close> that live in other files of the
  repository or outside it are parameters: the node registry, the checksum validation,
  the transaction-id generator, the payment builders, the execution engine
  (\<^verbatim>\<open>_Execute\<close>, once with the cost-query request functions and once with the paid ones)
  and the protobuf decoder. Each is given by its result.
\<close>

record 'info Env =
  GetNodeAccountIDsForExecute :: "error + AccountID list"
  ValidateChecksum :: "AccountID \<Rightarrow> Client \<Rightarrow> error option"
  TransactionIDGenerate :: "AccountID \<Rightarrow> TransactionID"
  QueryMakePaymentTransaction ::
    "TransactionID \<Rightarrow> AccountID \<Rightarrow> Operator \<Rightarrow> Hbar \<Rightarrow> error + Transaction"
  QueryGeneratePayments :: "AccountInfoQuery \<Rightarrow> Client \<Rightarrow> Hbar \<Rightarrow> error option \<times> AccountInfoQuery"
  ExecuteCostQuery :: "AccountInfoQuery \<Rightarrow> error + Response"
  ExecuteQuery :: "AccountInfoQuery \<Rightarrow> error + Response"
  AccountInfoFromProtobuf :: "string \<Rightarrow> error + 'info"

definition ValidateNetworkOnIDs :: "'info Env \<Rightarrow> Client option \<Rightarrow> AccountInfoQuery \<Rightarrow> error option" where
  "ValidateNetworkOnIDs env client query =
     (case client of
        None \<Rightarrow> None
      | Some c \<Rightarrow>
          if \<not> autoValidateChecksums c then None
          else (case accountID query of
                  None \<Rightarrow> None
                | Some a \<Rightarrow> ValidateChecksum env a c))"

text \<open>
  The first lines of both \<^verbatim>\<open>GetCost\<close> and \<^verbatim>\<open>Execute\<close>: the client and its operator must
  be there; an empty node list is filled from the registry.
\<close>

definition resolveNodes :: "'info Env \<Rightarrow> AccountInfoQuery \<Rightarrow> error + AccountInfoQuery" where
  "resolveNodes env query =
     (if length (nodeAccountIDs query) = 0
      then (case GetNodeAccountIDsForExecute env of
              Inl err \<Rightarrow> Inl err
            | Inr ids \<Rightarrow> Inr (query\<lparr>nodeAccountIDs := ids\<rparr>))
      else Inr query)"

text \<open>
  The loop \<^verbatim>\<open>for range query.nodeAccountIDs\<close> of \<^verbatim>\<open>GetCost\<close>: one empty payment per
  node, appended to the query; the first failure ends the loop with the payments
  appended so far.
\<close>

fun costPayments ::
  "'info Env \<Rightarrow> Operator \<Rightarrow> AccountID list \<Rightarrow> Transaction list \<Rightarrow> error option \<times> Transaction list" where
  "costPayments env opr [] txs = (None, txs)"
| "costPayments env opr (n # ns) txs =
     (case QueryMakePaymentTransaction env TransactionID_zero AccountID_zero opr Hbar_zero of
        Inl err \<Rightarrow> (Some err, txs)
      | Inr t \<Rightarrow> costPayments env opr ns (txs @ [t]))"

text \<open>\<^verbatim>\<open>GetCost\<close> up to the call of \<^verbatim>\<open>_Execute\<close>: the query as the cost probe is sent.\<close>

definition GetCost_prepare ::
  "'info Env \<Rightarrow> Client option \<Rightarrow> AccountInfoQuery \<Rightarrow> error \<times> AccountInfoQuery + AccountInfoQuery" where
  "GetCost_prepare env client query =
     (case client of
        None \<Rightarrow> Inl (ErrNoClientProvided, query)
      | Some c \<Rightarrow>
          (case operator c of
             None \<Rightarrow> Inl (ErrNoClientProvided, query)
           | Some opr \<Rightarrow>
               (case resolveNodes env query of
                  Inl err \<Rightarrow> Inl (err, query)
                | Inr q1 \<Rightarrow>
                    (case ValidateNetworkOnIDs env client q1 of
                       Some err \<Rightarrow> Inl (err, q1)
                     | None \<Rightarrow>
                         (case costPayments env opr (nodeAccountIDs q1) (paymentTransactions q1) of
                            (Some err, txs) \<Rightarrow> Inl (err, q1\<lparr>paymentTransactions := txs\<rparr>)
                          | (None, txs) \<Rightarrow> Inr (q1\<lparr>paymentTransactions := txs\<rparr>))))))"

definition GetCost ::
  "'info Env \<Rightarrow> Client option \<Rightarrow> AccountInfoQuery \<Rightarrow> effect list
     \<Rightarrow> (error + Hbar) \<times> AccountInfoQuery \<times> effect list" where
  "GetCost env client query log =
     (case GetCost_prepare env client query of
        Inl (err, q) \<Rightarrow> (Inl err, q, log)
      | Inr q2 \<Rightarrow>
          (case ExecuteCostQuery env q2 of
             Inl err \<Rightarrow> (Inl err, q2, log @ [CostProbe])
           | Inr resp \<Rightarrow>
               (let cost = sint (Cost resp) in
                  if cost < 25 then (Inr (HbarFromTinybar 25), q2, log @ [CostProbe])
                  else (Inr (HbarFromTinybar cost), q2, log @ [CostProbe]))))"





section \<open>The mirror node gateway (mirror\_node\_gateway.go)\<close>

definition LOCAL_NETWORK :: string where
  "LOCAL_NETWORK = ''127.0.0.1''"

definition API_VERSION :: string where
  "API_VERSION = ''/api/v1''"

definition PORT :: string where
  "PORT = '':5551''"

text \<open>
  \<^verbatim>\<open>strings.HasPrefix(s, prefix)\<close> is \<^verbatim>\<open>len(s) >= len(prefix) && s[:len(prefix)] == prefix\<close>;
  \<^verbatim>\<open>strings.Contains(s, substr)\<close> holds when \<open>substr\<close> starts at some position of \<open>s\<close>.
  Go strings are byte sequences, as \<open>string\<close> is here.
\<close>

definition HasPrefix :: "string \<Rightarrow> string \<Rightarrow> bool" where
  "HasPrefix s p = (length p \<le> length s \<and> take (length p) s = p)"

fun Contains :: "string \<Rightarrow> string \<Rightarrow> bool" where
  "Contains [] sub = (sub = [])"
| "Contains (c # cs) sub = (HasPrefix (c # cs) sub \<or> Contains cs sub)"

text \<open>
  The client's \<open>mirrorNetwork\<close> is what \<^verbatim>\<open>client.GetMirrorNetwork()\<close> returns.
  \<^verbatim>\<open>client.GetMirrorNetwork()[0]\<close> panics on a client without mirror nodes, and on a
  nil client.
\<close>

definition fetchMirrorNodeUrlFromClient :: "Client option \<Rightarrow> panic + string" where
  "fetchMirrorNodeUrlFromClient client =
     (case client of
        None \<Rightarrow> Inl NilPointerDereference
      | Some c \<Rightarrow>
          (case mirrorNetwork c of
             [] \<Rightarrow> Inl IndexOutOfRange
           | a # rest \<Rightarrow>
               if HasPrefix a LOCAL_NETWORK
               then Inr (''http://'' @ LOCAL_NETWORK @ PORT @ API_VERSION)
               else Inr (''https://'' @ a @ API_VERSION)))"

fun buildUrlParams :: "string \<Rightarrow> string list \<Rightarrow> string" where
  "buildUrlParams networkUrl [] = networkUrl"
| "buildUrlParams networkUrl (arg # params) = buildUrlParams (networkUrl @ ''/'' @ arg) params"

text \<open>
  A decoded JSON value (\<^verbatim>\<open>interface{}\<close> as \<^verbatim>\<open>encoding/json\<close> fills it): nil, a bool, a
  number (a \<^verbatim>\<open>float64\<close> in Go; nothing here looks inside one), a string, a
  \<^verbatim>\<open>[]interface{}\<close> or a \<^verbatim>\<open>map[string]interface{}\<close>.
\<close>

datatype json =
    JNull
  | JBool bool
  | JNumber int
  | JString string
  | JArray "json list"
  | JObject "(string \<times> json) list"

record HttpResponse =
  StatusCode :: int
  Body :: string

text \<open>
  The HTTP client, the JSON decoder of the response body and the decoder of one token
  relationship (\<^verbatim>\<open>TokenRelationshipFromJson\<close>, in another file) are parameters.
\<close>

record 'tr MirrorEnv =
  http_Get :: "string \<Rightarrow> error + HttpResponse"
  json_Decode :: "string \<Rightarrow> error + (string \<rightharpoonup> json)"
  TokenRelationshipFromJson :: "json \<Rightarrow> error + 'tr"

definition makeGetRequest ::
  "('tr, 'z) MirrorEnv_scheme \<Rightarrow> string \<Rightarrow> effect list
     \<Rightarrow> (error + (string \<rightharpoonup> json)) \<times> effect list" where
  "makeGetRequest env networkUrl log =
     (let log1 = (if Contains networkUrl LOCAL_NETWORK then log @ [Sleep (4 * Second)] else log);
          log2 = log1 @ [HttpGet networkUrl]
      in (case http_Get env networkUrl of
            Inl err \<Rightarrow> (Inl err, log2)
          | Inr resp \<Rightarrow>
              if StatusCode resp \<ge> 400 then (Inl (ErrHttpStatus (StatusCode resp)), log2)
              else (case json_Decode env (Body resp) of
                      Inl err \<Rightarrow> (Inl err, log2)
                    | Inr responseMap \<Rightarrow> (Inr responseMap, log2))))"

definition tokenRelationshipMirrorNodeQuery ::
  "('tr, 'z) MirrorEnv_scheme \<Rightarrow> string \<Rightarrow> string \<Rightarrow> effect list
     \<Rightarrow> (error + (string \<rightharpoonup> json)) \<times> effect list" where
  "tokenRelationshipMirrorNodeQuery env networkUrl ident log =
     makeGetRequest env (buildUrlParams networkUrl [''accounts'', ident, ''tokens'']) log"

section \<open>The contract info query and its enrichment (contract\_info\_query.go)\<close>

text \<open>
  \<^verbatim>\<open>ContractInfo\<close>: the fields the consensus node's answer fills, kept together as
  \<open>Consensus\<close>, and the token relationships, which the enrichment overwrites.
\<close>

record ('c, 'tr) ContractInfo =
  Consensus :: 'c
  TokenRelationships :: "'tr list"

record ContractID =
  ContractShard :: nat
  ContractRealm :: nat
  ContractNum :: nat

record ContractInfoQuery = Query +
  contractID :: "ContractID option"

text \<open>
  The loop over \<^verbatim>\<open>tokens\<close> in \<^verbatim>\<open>fetchContractInfoTokenRelationships\<close>: each decoded
  relationship is appended to \<^verbatim>\<open>info.TokenRelationships\<close>; the first token that does
  not decode ends the loop with its error and leaves what was appended.
\<close>

fun appendTokens ::
  "('tr, 'z) MirrorEnv_scheme \<Rightarrow> json list \<Rightarrow> ('c, 'tr) ContractInfo
     \<Rightarrow> error option \<times> ('c, 'tr) ContractInfo" where
  "appendTokens env [] info = (None, info)"
| "appendTokens env (token # tokens) info =
     (case TokenRelationshipFromJson env token of
        Inl err \<Rightarrow> (Some err, info)
      | Inr tr \<Rightarrow>
          appendTokens env tokens (info\<lparr>TokenRelationships := TokenRelationships info @ [tr]\<rparr>))"

text \<open>
  \<^verbatim>\<open>fetchContractInfoTokenRelationships\<close> writes through the pointer \<^verbatim>\<open>info\<close>: the
  function returns the error and the info as it leaves it.
\<close>

definition fetchContractInfoTokenRelationships ::
  "('tr, 'z) MirrorEnv_scheme \<Rightarrow> string \<Rightarrow> string \<Rightarrow> ('c, 'tr) ContractInfo \<Rightarrow> effect list
     \<Rightarrow> error option \<times> ('c, 'tr) ContractInfo \<times> effect list" where
  "fetchContractInfoTokenRelationships env network ident info log =
     (case tokenRelationshipMirrorNodeQuery env network ident log of
        (Inl err, log') \<Rightarrow> (Some err, info, log')
      | (Inr response, log') \<Rightarrow>
          (let info0 = info\<lparr>TokenRelationships := []\<rparr> in
             (case response ''tokens'' of
                Some (JArray tokens) \<Rightarrow>
                  (case appendTokens env tokens info0 of (err, info1) \<Rightarrow> (err, info1, log'))
              | _ \<Rightarrow> (None, info0, log'))))"

text \<open>
  The collaborators of \<^verbatim>\<open>ContractInfoQuery.Execute\<close>: the shared \<^verbatim>\<open>Query.execute\<close> (its
  result is the contract info of the node's response, still encoded), the protobuf
  decoder and \<^verbatim>\<open>ContractID.String\<close>, with the mirror node's.
\<close>

record ('c, 'tr) ContractEnv = "'tr MirrorEnv" +
  Query_execute :: "Client option \<Rightarrow> ContractInfoQuery \<Rightarrow> error + string"
  ContractInfoFromProtobuf :: "string \<Rightarrow> error + ('c, 'tr) ContractInfo"
  ContractID_String :: "ContractID \<Rightarrow> string"

text \<open>
  \<^verbatim>\<open>ContractInfoQuery.Execute\<close> returns a pair \<^verbatim>\<open>(ContractInfo, error)\<close>. The zero value
  \<^verbatim>\<open>ContractInfo{}\<close> is written \<open>None\<close>, the nil error \<open>None\<close>. The arguments of the
  enrichment are evaluated left to right: the mirror URL first, then
  \<^verbatim>\<open>q.contractID.String()\<close>, which dereferences \<^verbatim>\<open>q.contractID\<close>.
\<close>

definition ContractInfoQuery_Execute ::
  "('c, 'tr) ContractEnv \<Rightarrow> Client option \<Rightarrow> ContractInfoQuery \<Rightarrow> effect list
     \<Rightarrow> (panic + ('c, 'tr) ContractInfo option \<times> error option) \<times> effect list" where
  "ContractInfoQuery_Execute env client q log =
     (case Query_execute env client q of
        Inl err \<Rightarrow> (Inr (None, Some err), log)
      | Inr pb \<Rightarrow>
          (case ContractInfoFromProtobuf env pb of
             Inl err \<Rightarrow> (Inr (None, Some err), log)
           | Inr info \<Rightarrow>
               (case fetchMirrorNodeUrlFromClient client of
                  Inl p \<Rightarrow> (Inl p, log)
                | Inr url \<Rightarrow>
                    (case contractID q of
                       None \<Rightarrow> (Inl NilPointerDereference, log)
                     | Some cid \<Rightarrow>
                         (case fetchContractInfoTokenRelationships env url
                                 (ContractID_String env cid) info log of
                            (Some err, info', log') \<Rightarrow> (Inr (Some info', Some err), log')
                          | (None, info', log') \<Rightarrow> (Inr (Some info', None), log'))))))"

section \<open>Keys and their text encoding\<close>

type_synonym byte = "8 word"

definition ed25519PrivateKeyPrefix :: string where
  "ed25519PrivateKeyPrefix = ''302e020100300506032b657004220420''"

definition ed25519PubKeyPrefix :: string where
  "ed25519PubKeyPrefix = ''302a300506032b6570032100''"

definition newErrBadKeyf :: "string \<Rightarrow> fmtarg list \<Rightarrow> error" where
  "newErrBadKeyf fmt args = ErrBadKey fmt args"

text \<open>
  \<^verbatim>\<open>encoding/hex\<close>. \<^verbatim>\<open>EncodeToString\<close> writes two digits of \<^verbatim>\<open>0123456789abcdef\<close> per
  byte, the high nibble first. \<^verbatim>\<open>DecodeString\<close> reads pairs of digits of either case,
  stops at the first byte that is no digit, reports an odd length after the last full
  pair, and returns the bytes decoded so far with the error.
\<close>

definition hextable :: string where
  "hextable = ''0123456789abcdef''"

fun hex_EncodeToString :: "byte list \<Rightarrow> string" where
  "hex_EncodeToString [] = []"
| "hex_EncodeToString (v # src) =
     hextable ! unat (drop_bit 4 v) # hextable ! unat (v AND 15) # hex_EncodeToString src"

definition fromHexChar :: "char \<Rightarrow> byte option" where
  "fromHexChar c =
     (let n = (of_char c :: nat) in
        if 48 \<le> n \<and> n \<le> 57 then Some (of_nat (n - 48))
        else if 97 \<le> n \<and> n \<le> 102 then Some (of_nat (n - 97 + 10))
        else if 65 \<le> n \<and> n \<le> 70 then Some (of_nat (n - 65 + 10))
        else None)"

fun hex_DecodeString :: "string \<Rightarrow> byte list \<times> error option" where
  "hex_DecodeString (p # q # src) =
     (case fromHexChar p of
        None \<Rightarrow> ([], Some (ErrHexInvalidByte p))
      | Some a \<Rightarrow>
          (case fromHexChar q of
             None \<Rightarrow> ([], Some (ErrHexInvalidByte q))
           | Some b \<Rightarrow>
               (case hex_DecodeString src of (bs, err) \<Rightarrow> ((push_bit 4 a OR b) # bs, err))))"
| "hex_DecodeString [p] =
     (case fromHexChar p of
        None \<Rightarrow> ([], Some (ErrHexInvalidByte p))
      | Some a \<Rightarrow> ([], Some ErrHexLength))"
| "hex_DecodeString [] = ([], None)"

text \<open>
  \<^verbatim>\<open>strings.ToLower\<close> on the bytes of an ASCII string: \<^verbatim>\<open>A\<close> to \<^verbatim>\<open>Z\<close> become \<^verbatim>\<open>a\<close> to
  \<^verbatim>\<open>z\<close>. (On a string with bytes above 127 Go maps whole runes; those bytes are left
  as they are here.) \<^verbatim>\<open>strings.TrimPrefix\<close> drops the prefix when it is there.
\<close>

definition ToLower_char :: "char \<Rightarrow> char" where
  "ToLower_char c =
     (let n = (of_char c :: nat) in if 65 \<le> n \<and> n \<le> 90 then char_of (n + 32) else c)"

definition ToLower :: "string \<Rightarrow> string" where
  "ToLower s = map ToLower_char s"

definition TrimPrefix :: "string \<Rightarrow> string \<Rightarrow> string" where
  "TrimPrefix s p = (if HasPrefix s p then drop (length p) s else s)"

text \<open>
  \<^verbatim>\<open>chainCode\<close> is a slice that may be nil (\<^verbatim>\<open>SupportsDerivation\<close> tests it): \<open>None\<close>.
\<close>

record PrivateKey =
  keyData :: "byte list"
  chainCode :: "byte list option"

record PublicKey =
  pubKeyData :: "byte list"

text \<open>
  \<^verbatim>\<open>ed25519.NewKeyFromSeed\<close> of the ed25519 library: the 64-byte private key is the
  32-byte seed followed by the public key derived from it; it panics on a seed of
  another length. The derivation of the public key is the parameter \<open>pub\<close>.
\<close>

definition NewKeyFromSeed :: "(byte list \<Rightarrow> byte list) \<Rightarrow> byte list \<Rightarrow> panic + byte list" where
  "NewKeyFromSeed pub seed =
     (if length seed \<noteq> 32 then Inl (PanicMsg ''ed25519: bad seed length'')
      else Inr (seed @ pub seed))"

definition PrivateKeyFromBytes ::
  "(byte list \<Rightarrow> byte list) \<Rightarrow> byte list \<Rightarrow> panic + error + PrivateKey" where
  "PrivateKeyFromBytes pub bytes =
     (let len = length bytes in
        if len \<noteq> 32 \<and> len \<noteq> 64
        then Inr (Inl (newErrBadKeyf ''invalid private key length: %v bytes'' [ArgInt (int len)]))
        else (case NewKeyFromSeed pub (take 32 bytes) of
                Inl p \<Rightarrow> Inl p
              | Inr kd \<Rightarrow> Inr (Inr \<lparr>keyData = kd, chainCode = None\<rparr>)))"

definition PrivateKeyFromString ::
  "(byte list \<Rightarrow> byte list) \<Rightarrow> string \<Rightarrow> panic + error + PrivateKey" where
  "PrivateKeyFromString pub s =
     (let sLen = length s in
        if sLen \<noteq> 64 \<and> sLen \<noteq> 96 \<and> sLen \<noteq> 128
        then Inr (Inl (newErrBadKeyf ''invalid private key string with length %v''
                         [ArgInt (int sLen)]))
        else (case hex_DecodeString (TrimPrefix (ToLower s) ed25519PrivateKeyPrefix) of
                (bytes, Some err) \<Rightarrow> Inr (Inl err)
              | (bytes, None) \<Rightarrow> PrivateKeyFromBytes pub bytes))"

definition PublicKeyFromString :: "string \<Rightarrow> error + PublicKey" where
  "PublicKeyFromString s =
     (let sLen = length s in
        if sLen \<noteq> 64 \<and> sLen \<noteq> 88
        then Inl (newErrBadKeyf ''invalid public key '%v' string with length %v''
                    [ArgStr s, ArgInt (int sLen)])
        else (let keyStr = TrimPrefix (ToLower s) ed25519PubKeyPrefix in
                (case hex_DecodeString keyStr of
                   (bytes, Some err) \<Rightarrow> Inl err
                 | (bytes, None) \<Rightarrow> Inr \<lparr>pubKeyData = bytes\<rparr>)))"

text \<open>
  \<^verbatim>\<open>sk.keyData[:32]\<close> panics on a key of fewer than 32 bytes (a list here has no
  capacity beyond its length).
\<close>

definition PrivateKey_String :: "PrivateKey \<Rightarrow> panic + string" where
  "PrivateKey_String sk =
     (if length (keyData sk) < 32 then Inl SliceBoundsOutOfRange
      else Inr (ed25519PrivateKeyPrefix @ hex_EncodeToString (take 32 (keyData sk))))"

definition PublicKey_String :: "PublicKey \<Rightarrow> string" where
  "PublicKey_String pk = ed25519PubKeyPrefix @ hex_EncodeToString (pubKeyData pk)"

section \<open>Sample values\<close>

definition fresh_query :: AccountInfoQuery where
  "fresh_query =
     \<lparr>nodeAccountIDs = [], queryPayment = Hbar_zero, maxQueryPayment = Hbar_zero,
      paymentTransactionID = TransactionID_zero, paymentTransactions = [],
      nextPaymentTransactionIndex = 0, minBackoff = None, maxBackoff = None,
      accountID = None\<rparr>"

definition configured_query :: AccountInfoQuery where
  "configured_query =
     fresh_query\<lparr>minBackoff := Some (250 * Millisecond), maxBackoff := Some (8 * Second)\<rparr>"

definition node3 :: AccountID where
  "node3 = \<lparr>Shard = 0, Realm = 0, Account = 3\<rparr>"

definition operator2 :: Operator where
  "operator2 = \<lparr>OperatorAccountID = \<lparr>Shard = 0, Realm = 0, Account = 2\<rparr>\<rparr>"

definition sample_client :: Client where
  "sample_client =
     \<lparr>operator = Some operator2, clientMaxQueryPayment = HbarFromTinybar 100000000,
      autoValidateChecksums = False, mirrorNetwork = [''testnet.mirrornode.hedera.com:443'']\<rparr>"

text \<open>
  A network of one node that quotes \<open>quote\<close> for the cost probe, builds every payment it
  is asked for and answers the paid request.
\<close>

definition quoting_env :: "64 word \<Rightarrow> string Env" where
  "quoting_env quote =
     \<lparr>GetNodeAccountIDsForExecute = Inr [node3],
      ValidateChecksum = (\<lambda>a c. None),
      TransactionIDGenerate = (\<lambda>a. \<lparr>TxAccountID = Some a, ValidStart = 124124\<rparr>),
      QueryMakePaymentTransaction =
        (\<lambda>t n opr h. Inr \<lparr>PayTransactionID = t, PayNodeAccountID = n, PayAmount = h\<rparr>),
      QueryGeneratePayments =
        (\<lambda>q c h. (None, q\<lparr>paymentTransactions :=
                     map (\<lambda>n. \<lparr>PayTransactionID = paymentTransactionID q,
                                PayNodeAccountID = n, PayAmount = h\<rparr>) (nodeAccountIDs q)\<rparr>)),
      ExecuteCostQuery = (\<lambda>q. Inr \<lparr>Cost = quote, AccountInfoPb = []\<rparr>),
      ExecuteQuery = (\<lambda>q. Inr \<lparr>Cost = 0, AccountInfoPb = ''info''\<rparr>),
      AccountInfoFromProtobuf = (\<lambda>pb. Inr pb)\<rparr>"




definition local_client :: Client where
  "local_client = sample_client\<lparr>mirrorNetwork := [''127.0.0.1:5600'']\<rparr>"

text \<open>
  A sample decoder of one token relationship: a JSON object with a string under
  \<^verbatim>\<open>token_id\<close> decodes, anything else does not.
\<close>

definition token_decoder :: "json \<Rightarrow> error + string" where
  "token_decoder j =
     (case j of
        JObject kvs \<Rightarrow>
          (case map_of kvs ''token_id'' of
             Some (JString s) \<Rightarrow> Inr s
           | _ \<Rightarrow> Inl (ErrExternal ''invalid token relationship''))
      | _ \<Rightarrow> Inl (ErrExternal ''invalid token relationship''))"

definition consensus_info :: "(string, string) ContractInfo" where
  "consensus_info = \<lparr>Consensus = ''contract 0.0.5'', TokenRelationships = []\<rparr>"

text \<open>
  Three response bodies and what \<^verbatim>\<open>encoding/json\<close> decodes them to: the empty object,
  an empty token list, and a list of a token object followed by a number. \<open>dq\<close> is the
  double quote. The sample decoder knows these three; on an empty body it fails with
  \<^verbatim>\<open>EOF\<close>, as the library does, and on any other text with a syntax error.
\<close>

definition dq :: string where
  "dq = [CHR 0x22]"

definition empty_object_body :: string where
  "empty_object_body = ''{}''"

definition no_tokens_body :: string where
  "no_tokens_body = ''{'' @ dq @ ''tokens'' @ dq @ '':[]}''"

definition half_decodable_body :: string where
  "half_decodable_body =
     ''{'' @ dq @ ''tokens'' @ dq @ '':[{'' @ dq @ ''token_id'' @ dq @ '':''
       @ dq @ ''0.0.7'' @ dq @ ''},1]}''"

definition no_tokens :: "string \<rightharpoonup> json" where
  "no_tokens = [''tokens'' \<mapsto> JArray []]"

definition half_decodable :: "string \<rightharpoonup> json" where
  "half_decodable =
     [''tokens'' \<mapsto> JArray [JObject [(''token_id'', JString ''0.0.7'')], JNumber 1]]"

definition sample_json_Decode :: "string \<Rightarrow> error + (string \<rightharpoonup> json)" where
  "sample_json_Decode body =
     (if body = [] then Inl (ErrExternal ''EOF'')
      else if body = empty_object_body then Inr Map.empty
      else if body = no_tokens_body then Inr no_tokens
      else if body = half_decodable_body then Inr half_decodable
      else Inl (ErrExternal ''invalid character''))"

text \<open>
  A consensus node that answers, and a mirror node that answers every GET with the
  status \<open>status\<close> and the body \<open>body\<close>.
\<close>

definition contract_env :: "int \<Rightarrow> string \<Rightarrow> (string, string) ContractEnv" where
  "contract_env status body =
     \<lparr>http_Get = (\<lambda>url. Inr \<lparr>StatusCode = status, Body = body\<rparr>),
      json_Decode = sample_json_Decode,
      TokenRelationshipFromJson = token_decoder,
      Query_execute = (\<lambda>c q. Inr ''pb''),
      ContractInfoFromProtobuf = (\<lambda>pb. Inr consensus_info),
      ContractID_String = (\<lambda>cid. ''0.0.5'')\<rparr>"

text \<open>The same, with a mirror node that cannot be reached.\<close>

definition unreachable_env :: "(string, string) ContractEnv" where
  "unreachable_env =
     (contract_env 200 [])\<lparr>http_Get := (\<lambda>url. Inl (ErrExternal ''connection refused''))\<rparr>"

definition contract_query :: ContractInfoQuery where
  "contract_query =
     \<lparr>nodeAccountIDs = [], queryPayment = Hbar_zero, maxQueryPayment = Hbar_zero,
      paymentTransactionID = TransactionID_zero, paymentTransactions = [],
      nextPaymentTransactionIndex = 0, minBackoff = None, maxBackoff = None,
      contractID = Some \<lparr>ContractShard = 0, ContractRealm = 0, ContractNum = 5\<rparr>\<rparr>"

definition testnet_url :: string where
  "testnet_url = ''https://testnet.mirrornode.hedera.com:443/api/v1''"

definition local_url :: string where
  "local_url = ''http://127.0.0.1:5551/api/v1''"

text \<open>The seed of the operator key of the repository's test workflows.\<close>

definition operator_seed :: "byte list" where
  "operator_seed =
     [0x91, 0x13, 0x21, 0x78, 0xe7, 0x20, 0x57, 0xa1, 0xd7, 0x52, 0x80, 0x25, 0x95, 0x6f,
      0xe3, 0x9b, 0x0b, 0x84, 0x7f, 0x20, 0x0a, 0xb5, 0x9b, 0x2f, 0xdd, 0x36, 0x70, 0x17,
      0xf3, 0x08, 0x71, 0x37]"

text \<open>A stand-in for the derivation of the public key: 32 bytes computed from the seed.\<close>

definition sample_pub :: "byte list \<Rightarrow> byte list" where
  "sample_pub seed = map (\<lambda>b. b XOR 0x5c) seed"

definition operator_key :: PrivateKey where
  "operator_key = \<lparr>keyData = operator_seed @ sample_pub operator_seed, chainCode = None\<rparr>"

definition operator_key_text :: string where
  "operator_key_text =
     ''302e020100300506032b65700422042091132178e72057a1d7528025956fe39b0b847f200ab59b2fdd367017f3087137''"

section \<open>Backoff\<close>

lemma backoff_bounds:
  "0 \<le> mn \<Longrightarrow> mn \<le> mx \<Longrightarrow> mn \<le> backoff mn mx i \<and> backoff mn mx i \<le> mx"
  by (induction i) auto

lemma backoff_step:
  "0 \<le> mn \<Longrightarrow> mn \<le> mx \<Longrightarrow> backoff mn mx i \<le> backoff mn mx (Suc i)"
  using backoff_bounds [of mn mx i] by auto

lemma SetMaxBackoff_keeps_ok:
  "backoff_ok query \<Longrightarrow> SetMaxBackoff query mx = Inr q' \<Longrightarrow> backoff_ok q'"
  by (auto simp: SetMaxBackoff_def backoff_ok_def GetMinBackoff_def GetMaxBackoff_def
           split: if_splits option.splits)

lemma SetMaxBackoff_ordered:
  "SetMaxBackoff query mx = Inr q' \<Longrightarrow> GetMinBackoff q' \<le> GetMaxBackoff q'"
  by (auto simp: SetMaxBackoff_def GetMinBackoff_def GetMaxBackoff_def
           split: if_splits option.splits)

lemma SetMinBackoff_keeps_ok:
  "SetMinBackoff query mn = Inr q' \<Longrightarrow> backoff_ok q'"
  by (auto simp: SetMinBackoff_def backoff_ok_def GetMinBackoff_def GetMaxBackoff_def
           split: if_splits option.splits)

text \<open>
  C3. For a query whose configured bounds are well formed (\<open>0 \<le> min \<le> max\<close>), the
  backoff within one call never falls below the configured minimum, never decreases
  from one attempt to the next and never exceeds the configured maximum. A setter that
  returns leaves \<open>min \<le> max\<close>, and leaves well-formed bounds well formed.
\<close>

theorem backoff_monotone_bounded:
  "(backoff_ok query \<longrightarrow>
        GetMinBackoff query \<le> backoff (GetMinBackoff query) (GetMaxBackoff query) i
      \<and> backoff (GetMinBackoff query) (GetMaxBackoff query) i
           \<le> backoff (GetMinBackoff query) (GetMaxBackoff query) (Suc i)
      \<and> backoff (GetMinBackoff query) (GetMaxBackoff query) (Suc i) \<le> GetMaxBackoff query)
   \<and> (\<forall>q'. SetMaxBackoff query mx = Inr q' \<longrightarrow>
          GetMinBackoff q' \<le> GetMaxBackoff q' \<and> (backoff_ok query \<longrightarrow> backoff_ok q'))
   \<and> (\<forall>q'. SetMinBackoff query mn = Inr q' \<longrightarrow>
          GetMinBackoff q' \<le> GetMaxBackoff q' \<and> backoff_ok q')"
proof -
  have seq: "GetMinBackoff query \<le> backoff (GetMinBackoff query) (GetMaxBackoff query) i
      \<and> backoff (GetMinBackoff query) (GetMaxBackoff query) i
           \<le> backoff (GetMinBackoff query) (GetMaxBackoff query) (Suc i)
      \<and> backoff (GetMinBackoff query) (GetMaxBackoff query) (Suc i) \<le> GetMaxBackoff query"
    if ok: "backoff_ok query"
  proof -
    from ok have lo: "0 \<le> GetMinBackoff query"
      and le: "GetMinBackoff query \<le> GetMaxBackoff query"
      by (simp_all add: backoff_ok_def)
    from backoff_bounds [OF lo le, of i] backoff_step [OF lo le, of i]
      backoff_bounds [OF lo le, of "Suc i"]
    show ?thesis by blast
  qed
  have smax: "\<forall>q'. SetMaxBackoff query mx = Inr q' \<longrightarrow>
          GetMinBackoff q' \<le> GetMaxBackoff q' \<and> (backoff_ok query \<longrightarrow> backoff_ok q')"
    using SetMaxBackoff_keeps_ok SetMaxBackoff_ordered by blast
  have smin: "\<forall>q'. SetMinBackoff query mn = Inr q' \<longrightarrow>
          GetMinBackoff q' \<le> GetMaxBackoff q' \<and> backoff_ok q'"
    using SetMinBackoff_keeps_ok by (auto simp: backoff_ok_def)
  from seq smax smin show ?thesis by blast
qed

theorem backoff_monotone_bounded_witness:
  "backoff_ok configured_query
   \<and> SetMaxBackoff configured_query (10 * Second)
       = Inr (configured_query\<lparr>maxBackoff := Some (10 * Second)\<rparr>)
   \<and> SetMinBackoff configured_query (500 * Millisecond)
       = Inr (configured_query\<lparr>minBackoff := Some (500 * Millisecond)\<rparr>)
   \<and> backoff_ok (configured_query\<lparr>maxBackoff := Some (10 * Second)\<rparr>)
   \<and> backoff_ok (configured_query\<lparr>minBackoff := Some (500 * Millisecond)\<rparr>)
   \<and> 250 * Millisecond \<le> backoff (250 * Millisecond) (8 * Second) 5
   \<and> backoff (250 * Millisecond) (8 * Second) 5 \<le> backoff (250 * Millisecond) (8 * Second) (Suc 5)
   \<and> backoff (250 * Millisecond) (8 * Second) (Suc 5) \<le> 8 * Second"
proof -
  have ok: "backoff_ok configured_query"
    by (simp add: backoff_ok_def configured_query_def fresh_query_def GetMinBackoff_def
          GetMaxBackoff_def Millisecond_def Second_def)
  have mx: "SetMaxBackoff configured_query (10 * Second)
              = Inr (configured_query\<lparr>maxBackoff := Some (10 * Second)\<rparr>)"
    by (simp add: SetMaxBackoff_def configured_query_def fresh_query_def Millisecond_def Second_def)
  have mn: "SetMinBackoff configured_query (500 * Millisecond)
              = Inr (configured_query\<lparr>minBackoff := Some (500 * Millisecond)\<rparr>)"
    by (simp add: SetMinBackoff_def configured_query_def fresh_query_def Millisecond_def Second_def)
  have gmin: "GetMinBackoff configured_query = 250 * Millisecond"
    by (simp add: GetMinBackoff_def configured_query_def fresh_query_def)
  have gmax: "GetMaxBackoff configured_query = 8 * Second"
    by (simp add: GetMaxBackoff_def configured_query_def fresh_query_def)
  from backoff_monotone_bounded [of configured_query 5 "10 * Second" "500 * Millisecond"] ok mx mn
  show ?thesis unfolding gmin gmax by blast
qed

section \<open>Setting a minimum backoff before a maximum\<close>

text \<open>
  C10. On a query whose \<^verbatim>\<open>maxBackoff\<close> pointer is nil, \<^verbatim>\<open>SetMinBackoff\<close> faults with a
  nil pointer dereference for every non-negative argument, and it returns for no
  argument at all: a minimum backoff can only be set after a maximum backoff.
\<close>

theorem SetMinBackoff_needs_maxBackoff:
  assumes "maxBackoff query = None"
  shows "(0 \<le> mn \<longrightarrow> SetMinBackoff query mn = Inl NilPointerDereference)
       \<and> (\<forall>q'. SetMinBackoff query mn \<noteq> Inr q')"
  using assms by (simp add: SetMinBackoff_def)

theorem SetMinBackoff_needs_maxBackoff_witness:
  "maxBackoff fresh_query = None \<and> (0::int) \<le> 250 * Millisecond
   \<and> SetMinBackoff fresh_query (250 * Millisecond) = Inl NilPointerDereference"
proof -
  have h: "maxBackoff fresh_query = None" by (simp add: fresh_query_def)
  have p: "(0::int) \<le> 250 * Millisecond" by (simp add: Millisecond_def)
  from SetMinBackoff_needs_maxBackoff [OF h, of "250 * Millisecond"] h p
  show ?thesis by blast
qed

section \<open>The cost quote and its floor\<close>

lemma GetCost_probe:
  assumes "GetCost_prepare env client query = Inr q2"
    and "ExecuteCostQuery env q2 = Inr resp"
  shows "GetCost env client query log
           = (Inr (HbarFromTinybar (max (sint (Cost resp)) 25)), q2, log @ [CostProbe])"
  using assms by (simp add: GetCost_def Let_def max_def)

lemma GetCost_quote_lower:
  "GetCost env client query log = (Inr h, q', log') \<Longrightarrow> 25 \<le> tinybar h"
  by (auto simp: GetCost_def Let_def HbarFromTinybar_def
           split: sum.splits prod.splits if_splits)

text \<open>
  C2, as the code has it. The header's cost is an unsigned 64-bit field and \<^verbatim>\<open>GetCost\<close>
  converts it with \<^verbatim>\<open>int64(...)\<close>. For every successful cost probe whose quote is below
  \<open>2 ^ 63\<close> tinybars, \<^verbatim>\<open>GetCost\<close> returns the larger of the quote and the floor of 25
  tinybars; in every case it returns the larger of the converted quote and the floor.
\<close>

theorem GetCost_floor:
  assumes "GetCost_prepare env client query = Inr q2"
    and "ExecuteCostQuery env q2 = Inr resp"
  shows "fst (GetCost env client query log) = Inr (HbarFromTinybar (max (sint (Cost resp)) 25))
       \<and> (uint (Cost resp) < 2 ^ 63 \<longrightarrow>
            fst (GetCost env client query log) = Inr (HbarFromTinybar (max (uint (Cost resp)) 25)))"
proof -
  have a: "fst (GetCost env client query log) = Inr (HbarFromTinybar (max (sint (Cost resp)) 25))"
    using GetCost_probe [OF assms] by simp
  have "sint (Cost resp) = uint (Cost resp)" if "uint (Cost resp) < 2 ^ 63"
  proof -
    have "- (2 ^ 63) \<le> uint (Cost resp)"
      by (rule order_trans [of _ 0]) simp_all
    then have "signed_take_bit 63 (uint (Cost resp)) = uint (Cost resp)"
      using that by (rule signed_take_bit_int_eq_self)
    then show ?thesis by (simp add: sint_uint)
  qed
  with a show ?thesis by simp
qed

lemma quoting_prepare:
  "GetCost_prepare (quoting_env quote) (Some sample_client) fresh_query
     = Inr (fresh_query\<lparr>nodeAccountIDs := [node3],
              paymentTransactions := [\<lparr>PayTransactionID = TransactionID_zero,
                 PayNodeAccountID = AccountID_zero, PayAmount = Hbar_zero\<rparr>]\<rparr>)"
  by (simp add: GetCost_prepare_def quoting_env_def sample_client_def fresh_query_def
        resolveNodes_def ValidateNetworkOnIDs_def)

theorem GetCost_floor_witness:
  "GetCost_prepare (quoting_env 10) (Some sample_client) fresh_query
     = Inr (fresh_query\<lparr>nodeAccountIDs := [node3],
              paymentTransactions := [\<lparr>PayTransactionID = TransactionID_zero,
                 PayNodeAccountID = AccountID_zero, PayAmount = Hbar_zero\<rparr>]\<rparr>)
   \<and> uint (10 :: 64 word) < 2 ^ 63
   \<and> fst (GetCost (quoting_env 10) (Some sample_client) fresh_query []) = Inr (HbarFromTinybar 25)"
proof -
  let ?q2 = "fresh_query\<lparr>nodeAccountIDs := [node3],
              paymentTransactions := [\<lparr>PayTransactionID = TransactionID_zero,
                 PayNodeAccountID = AccountID_zero, PayAmount = Hbar_zero\<rparr>]\<rparr>"
  have p: "GetCost_prepare (quoting_env 10) (Some sample_client) fresh_query = Inr ?q2"
    by (rule quoting_prepare)
  have e: "ExecuteCostQuery (quoting_env 10) ?q2 = Inr \<lparr>Cost = 10, AccountInfoPb = []\<rparr>"
    by (simp add: quoting_env_def)
  have u: "uint (10 :: 64 word) < 2 ^ 63" by simp
  from GetCost_floor [OF p e, of "[]"] p u show ?thesis by simp
qed

theorem GetCost_floor_counterexample:
  "fst (GetCost (quoting_env 9223372036854775808) (Some sample_client) fresh_query [])
     = Inr (HbarFromTinybar 25)
   \<and> fst (GetCost (quoting_env 9223372036854775808) (Some sample_client) fresh_query [])
     \<noteq> Inr (HbarFromTinybar (max (uint (9223372036854775808 :: 64 word)) 25))"
proof -
  let ?q2 = "fresh_query\<lparr>nodeAccountIDs := [node3],
              paymentTransactions := [\<lparr>PayTransactionID = TransactionID_zero,
                 PayNodeAccountID = AccountID_zero, PayAmount = Hbar_zero\<rparr>]\<rparr>"
  have e: "ExecuteCostQuery (quoting_env 9223372036854775808) ?q2
             = Inr \<lparr>Cost = 9223372036854775808, AccountInfoPb = []\<rparr>"
    by (simp add: quoting_env_def)
  have s: "sint (9223372036854775808 :: 64 word) = - 9223372036854775808"
    by simp
  have "GetCost (quoting_env 9223372036854775808) (Some sample_client) fresh_query []
          = (Inr (HbarFromTinybar (max (sint (9223372036854775808 :: 64 word)) 25)), ?q2, [CostProbe])"
    using GetCost_probe [OF quoting_prepare e, of "[]"] by simp
  then show ?thesis
    by (simp add: s HbarFromTinybar_def)
qed

section \<open>The payment ceiling\<close>











section \<open>The mirror node's base URL\<close>

lemma HasPrefix_iff: "HasPrefix s p \<longleftrightarrow> (\<exists>t. s = p @ t)"
proof
  assume "HasPrefix s p"
  then have "s = p @ drop (length p) s"
    by (metis HasPrefix_def append_take_drop_id)
  then show "\<exists>t. s = p @ t" ..
next
  assume "\<exists>t. s = p @ t"
  then show "HasPrefix s p" by (auto simp: HasPrefix_def)
qed

lemma Contains_iff: "Contains s sub \<longleftrightarrow> (\<exists>a b. s = a @ sub @ b)"
proof (induction s)
  case Nil
  show ?case by auto
next
  case (Cons c cs)
  show ?case
  proof
    assume "Contains (c # cs) sub"
    then consider "HasPrefix (c # cs) sub" | "Contains cs sub" by auto
    then show "\<exists>a b. c # cs = a @ sub @ b"
    proof cases
      case 1
      then obtain t where "c # cs = sub @ t" by (auto simp: HasPrefix_iff)
      then have "c # cs = [] @ sub @ t" by simp
      then show ?thesis by blast
    next
      case 2
      with Cons.IH obtain a b where "cs = a @ sub @ b" by blast
      then have "c # cs = (c # a) @ sub @ b" by simp
      then show ?thesis by blast
    qed
  next
    assume "\<exists>a b. c # cs = a @ sub @ b"
    then obtain a b where ab: "c # cs = a @ sub @ b" by blast
    show "Contains (c # cs) sub"
    proof (cases a)
      case Nil
      with ab have "HasPrefix (c # cs) sub" by (auto simp: HasPrefix_iff)
      then show ?thesis by simp
    next
      case (Cons x a')
      with ab have "cs = a' @ sub @ b" by simp
      with Cons.IH have "Contains cs sub" by blast
      then show ?thesis by simp
    qed
  qed
qed

lemma fetchMirrorNodeUrlFromClient_no_mirror:
  "mirrorNetwork c = [] \<Longrightarrow> fetchMirrorNodeUrlFromClient (Some c) = Inl IndexOutOfRange"
  by (simp add: fetchMirrorNodeUrlFromClient_def)

text \<open>
  C5. For a client with a primary mirror-network address \<open>a\<close>: if \<open>a\<close> begins with
  \<^verbatim>\<open>127.0.0.1\<close> the base URL is exactly \<^verbatim>\<open>http://127.0.0.1:5551/api/v1\<close>, otherwise it is
  \<^verbatim>\<open>https://\<close> followed by \<open>a\<close> followed by \<^verbatim>\<open>/api/v1\<close>.
\<close>

theorem fetchMirrorNodeUrlFromClient_url:
  assumes "mirrorNetwork c = a # rest"
  shows "((\<exists>t. a = ''127.0.0.1'' @ t) \<longrightarrow>
            fetchMirrorNodeUrlFromClient (Some c) = Inr ''http://127.0.0.1:5551/api/v1'')
       \<and> ((\<nexists>t. a = ''127.0.0.1'' @ t) \<longrightarrow>
            fetchMirrorNodeUrlFromClient (Some c) = Inr (''https://'' @ a @ ''/api/v1''))"
proof -
  have "HasPrefix a LOCAL_NETWORK \<longleftrightarrow> (\<exists>t. a = ''127.0.0.1'' @ t)"
    by (simp only: HasPrefix_iff LOCAL_NETWORK_def)
  then show ?thesis
    using assms
    by (simp add: fetchMirrorNodeUrlFromClient_def LOCAL_NETWORK_def PORT_def API_VERSION_def)
qed

theorem fetchMirrorNodeUrlFromClient_url_witness:
  "mirrorNetwork local_client = [''127.0.0.1:5600'']
   \<and> fetchMirrorNodeUrlFromClient (Some local_client) = Inr ''http://127.0.0.1:5551/api/v1''
   \<and> mirrorNetwork sample_client = [''testnet.mirrornode.hedera.com:443'']
   \<and> fetchMirrorNodeUrlFromClient (Some sample_client)
       = Inr ''https://testnet.mirrornode.hedera.com:443/api/v1''"
proof -
  have l: "mirrorNetwork local_client = [''127.0.0.1:5600'']"
    by (simp add: local_client_def)
  have t: "mirrorNetwork sample_client = [''testnet.mirrornode.hedera.com:443'']"
    by (simp add: sample_client_def)
  have lp: "\<exists>t. ''127.0.0.1:5600'' = ''127.0.0.1'' @ t" by simp
  have tp: "\<nexists>t. ''testnet.mirrornode.hedera.com:443'' = ''127.0.0.1'' @ t" by simp
  from fetchMirrorNodeUrlFromClient_url [OF l] lp
  have a: "fetchMirrorNodeUrlFromClient (Some local_client) = Inr ''http://127.0.0.1:5551/api/v1''"
    by blast
  from fetchMirrorNodeUrlFromClient_url [OF t] tp
  have b: "fetchMirrorNodeUrlFromClient (Some sample_client)
             = Inr (''https://'' @ ''testnet.mirrornode.hedera.com:443'' @ ''/api/v1'')"
    by blast
  from l t a b show ?thesis by simp
qed

section \<open>The wait before a local fetch\<close>

lemma makeGetRequest_log:
  "snd (makeGetRequest env networkUrl log)
     = (if Contains networkUrl LOCAL_NETWORK then log @ [Sleep (4 * Second), HttpGet networkUrl]
        else log @ [HttpGet networkUrl])"
  by (simp add: makeGetRequest_def Let_def split: sum.splits)

text \<open>
  C6. A fetch from a URL that contains \<^verbatim>\<open>127.0.0.1\<close> sleeps for the window of four
  seconds and only then issues the GET; a fetch from any other URL issues the GET at
  once, with no sleep before it.
\<close>

theorem makeGetRequest_wait:
  "((\<exists>a b. networkUrl = a @ ''127.0.0.1'' @ b) \<longrightarrow>
      snd (makeGetRequest env networkUrl log)
        = log @ [Sleep (4 * Second), HttpGet networkUrl])
   \<and> ((\<nexists>a b. networkUrl = a @ ''127.0.0.1'' @ b) \<longrightarrow>
      snd (makeGetRequest env networkUrl log) = log @ [HttpGet networkUrl])"
proof -
  have "Contains networkUrl LOCAL_NETWORK \<longleftrightarrow> (\<exists>a b. networkUrl = a @ ''127.0.0.1'' @ b)"
    by (simp only: Contains_iff LOCAL_NETWORK_def)
  then show ?thesis
    by (simp add: makeGetRequest_log)
qed

lemma local_tokens_url:
  "buildUrlParams local_url [''accounts'', ''0.0.5'', ''tokens'']
     = ''http://'' @ ''127.0.0.1'' @ '':5551/api/v1/accounts/0.0.5/tokens''"
  by (simp add: local_url_def)

lemma testnet_tokens_url:
  "buildUrlParams testnet_url [''accounts'', ''0.0.5'', ''tokens'']
     = ''https://testnet.mirrornode.hedera.com:443/api/v1/accounts/0.0.5/tokens''"
  by (simp add: testnet_url_def)

lemma testnet_not_local:
  "\<not> Contains ''https://testnet.mirrornode.hedera.com:443/api/v1/accounts/0.0.5/tokens''
       LOCAL_NETWORK"
  by (simp add: LOCAL_NETWORK_def HasPrefix_def)

theorem makeGetRequest_wait_witness:
  "snd (makeGetRequest (contract_env 200 empty_object_body)
          (buildUrlParams local_url [''accounts'', ''0.0.5'', ''tokens'']) [])
     = [Sleep (4 * Second), HttpGet ''http://127.0.0.1:5551/api/v1/accounts/0.0.5/tokens'']
   \<and> snd (makeGetRequest (contract_env 200 empty_object_body)
          (buildUrlParams testnet_url [''accounts'', ''0.0.5'', ''tokens'']) [])
     = [HttpGet ''https://testnet.mirrornode.hedera.com:443/api/v1/accounts/0.0.5/tokens'']"
proof -
  have l: "\<exists>a b. buildUrlParams local_url [''accounts'', ''0.0.5'', ''tokens'']
                   = a @ ''127.0.0.1'' @ b"
    unfolding local_tokens_url by blast
  have t: "\<nexists>a b. buildUrlParams testnet_url [''accounts'', ''0.0.5'', ''tokens'']
                   = a @ ''127.0.0.1'' @ b"
    using testnet_not_local
    unfolding testnet_tokens_url Contains_iff LOCAL_NETWORK_def by blast
  from makeGetRequest_wait [of "buildUrlParams local_url [''accounts'', ''0.0.5'', ''tokens'']"
         "contract_env 200 empty_object_body" "[]"] l
  have a: "snd (makeGetRequest (contract_env 200 empty_object_body)
                  (buildUrlParams local_url [''accounts'', ''0.0.5'', ''tokens'']) [])
             = [] @ [Sleep (4 * Second),
                     HttpGet (buildUrlParams local_url [''accounts'', ''0.0.5'', ''tokens''])]"
    by blast
  from makeGetRequest_wait [of "buildUrlParams testnet_url [''accounts'', ''0.0.5'', ''tokens'']"
         "contract_env 200 empty_object_body" "[]"] t
  have b: "snd (makeGetRequest (contract_env 200 empty_object_body)
                  (buildUrlParams testnet_url [''accounts'', ''0.0.5'', ''tokens'']) [])
             = [] @ [HttpGet (buildUrlParams testnet_url [''accounts'', ''0.0.5'', ''tokens''])]"
    by blast
  show ?thesis
    unfolding a b by (simp add: local_url_def testnet_url_def)
qed

section \<open>The status of the mirror node's response\<close>

text \<open>
  C8, as the code has it. A response whose status code is 400 or more makes the fetch
  return an error naming the code, and no decoded result. A response with any lower
  status (the 2xx range, and 1xx and 3xx as well) is handed to the JSON decoder, whose
  result is the fetch's.
\<close>

theorem makeGetRequest_status:
  assumes "http_Get env networkUrl = Inr resp"
  shows "(400 \<le> StatusCode resp \<longrightarrow>
            fst (makeGetRequest env networkUrl log) = Inl (ErrHttpStatus (StatusCode resp)))
       \<and> (StatusCode resp < 400 \<longrightarrow>
            fst (makeGetRequest env networkUrl log) = json_Decode env (Body resp))"
  using assms by (simp add: makeGetRequest_def Let_def split: sum.splits)

lemma sample_json_Decode_bodies:
  "sample_json_Decode [] = Inl (ErrExternal ''EOF'')"
  "sample_json_Decode empty_object_body = Inr Map.empty"
  "sample_json_Decode no_tokens_body = Inr no_tokens"
  "sample_json_Decode half_decodable_body = Inr half_decodable"
  by (simp_all add: sample_json_Decode_def empty_object_body_def no_tokens_body_def
        half_decodable_body_def dq_def)

theorem makeGetRequest_status_witness:
  "http_Get (contract_env 404 []) testnet_url = Inr \<lparr>StatusCode = 404, Body = []\<rparr>
   \<and> fst (makeGetRequest (contract_env 404 []) testnet_url []) = Inl (ErrHttpStatus 404)
   \<and> http_Get (contract_env 200 empty_object_body) testnet_url
       = Inr \<lparr>StatusCode = 200, Body = empty_object_body\<rparr>
   \<and> fst (makeGetRequest (contract_env 200 empty_object_body) testnet_url []) = Inr Map.empty"
proof -
  have g4: "http_Get (contract_env 404 []) testnet_url = Inr \<lparr>StatusCode = 404, Body = []\<rparr>"
    by (simp add: contract_env_def)
  have g2: "http_Get (contract_env 200 empty_object_body) testnet_url
              = Inr \<lparr>StatusCode = 200, Body = empty_object_body\<rparr>"
    by (simp add: contract_env_def)
  have d: "json_Decode (contract_env 200 empty_object_body) empty_object_body = Inr Map.empty"
    by (simp add: contract_env_def sample_json_Decode_bodies)
  from makeGetRequest_status [OF g4, of "[]"]
  have a: "fst (makeGetRequest (contract_env 404 []) testnet_url []) = Inl (ErrHttpStatus 404)"
    by simp
  from makeGetRequest_status [OF g2, of "[]"] d
  have b: "fst (makeGetRequest (contract_env 200 empty_object_body) testnet_url [])
             = Inr Map.empty"
    by simp
  from g4 g2 a b show ?thesis by simp
qed

text \<open>
  The claim as it was stated fails on a response of status 300 (Multiple Choices, which
  the HTTP client hands back as it is) whose body is the JSON object \<^verbatim>\<open>{}\<close>: the status
  is outside the 2xx range and the fetch returns the decoded object, not an error.
\<close>

theorem makeGetRequest_status_counterexample:
  "http_Get (contract_env 300 empty_object_body) testnet_url
     = Inr \<lparr>StatusCode = 300, Body = ''{}''\<rparr>
   \<and> \<not> (200 \<le> (300 :: int) \<and> (300 :: int) < 300)
   \<and> fst (makeGetRequest (contract_env 300 empty_object_body) testnet_url []) = Inr Map.empty"
proof -
  have g: "http_Get (contract_env 300 empty_object_body) testnet_url
             = Inr \<lparr>StatusCode = 300, Body = empty_object_body\<rparr>"
    by (simp add: contract_env_def)
  have d: "json_Decode (contract_env 300 empty_object_body) empty_object_body = Inr Map.empty"
    by (simp add: contract_env_def sample_json_Decode_bodies)
  have "fst (makeGetRequest (contract_env 300 empty_object_body) testnet_url []) = Inr Map.empty"
    by (simp add: makeGetRequest_def Let_def g d)
  with g show ?thesis by (simp add: empty_object_body_def)
qed

section \<open>Enrichment of the contract info\<close>

lemma appendTokens_Consensus:
  "appendTokens env tokens info = (e, info') \<Longrightarrow> Consensus info' = Consensus info"
proof (induction tokens arbitrary: info)
  case Nil
  then show ?case by simp
next
  case (Cons token tokens)
  show ?case
  proof (cases "TokenRelationshipFromJson env token")
    case (Inl err)
    with Cons.prems show ?thesis by simp
  next
    case (Inr tr)
    with Cons.prems
    have "appendTokens env tokens (info\<lparr>TokenRelationships := TokenRelationships info @ [tr]\<rparr>)
            = (e, info')"
      by simp
    from Cons.IH [OF this] show ?thesis by simp
  qed
qed

lemma appendTokens_fails:
  "appendTokens env tokens info = (Some err, info') \<Longrightarrow>
     \<exists>good bad rest trs.
        tokens = good @ bad # rest
      \<and> map (TokenRelationshipFromJson env) good = map Inr trs
      \<and> TokenRelationshipFromJson env bad = Inl err
      \<and> TokenRelationships info' = TokenRelationships info @ trs"
proof (induction tokens arbitrary: info)
  case Nil
  then show ?case by simp
next
  case (Cons token tokens)
  show ?case
  proof (cases "TokenRelationshipFromJson env token")
    case (Inl e)
    with Cons.prems have "e = err" and "info' = info" by simp_all
    with Inl have "token # tokens = [] @ token # tokens
        \<and> map (TokenRelationshipFromJson env) [] = map Inr []
        \<and> TokenRelationshipFromJson env token = Inl err
        \<and> TokenRelationships info' = TokenRelationships info @ []"
      by simp
    then show ?thesis by blast
  next
    case (Inr tr)
    with Cons.prems
    have "appendTokens env tokens (info\<lparr>TokenRelationships := TokenRelationships info @ [tr]\<rparr>)
            = (Some err, info')"
      by simp
    from Cons.IH [OF this]
    obtain good bad rest trs where
      t: "tokens = good @ bad # rest"
      and g: "map (TokenRelationshipFromJson env) good = map Inr trs"
      and b: "TokenRelationshipFromJson env bad = Inl err"
      and r: "TokenRelationships info' = (TokenRelationships info @ [tr]) @ trs"
      by auto
    from t g b r Inr
    have "token # tokens = (token # good) @ bad # rest
        \<and> map (TokenRelationshipFromJson env) (token # good) = map Inr (tr # trs)
        \<and> TokenRelationshipFromJson env bad = Inl err
        \<and> TokenRelationships info' = TokenRelationships info @ (tr # trs)"
      by simp
    then show ?thesis by blast
  qed
qed

text \<open>
  C7. When the mirror node's response decodes and its token list is absent, null or
  empty, the enrichment returns no error and leaves the info with an empty list of
  token relationships; \<^verbatim>\<open>Execute\<close> then returns that info and a nil error.
\<close>

theorem empty_token_list_enriches:
  assumes resp: "tokenRelationshipMirrorNodeQuery env network ident log = (Inr response, log')"
    and empty: "response ''tokens'' = None \<or> response ''tokens'' = Some JNull
                \<or> response ''tokens'' = Some (JArray [])"
  shows "fetchContractInfoTokenRelationships env network ident info log
           = (None, info\<lparr>TokenRelationships := []\<rparr>, log')
       \<and> (Query_execute env client q = Inr pb \<and> ContractInfoFromProtobuf env pb = Inr info
            \<and> fetchMirrorNodeUrlFromClient client = Inr network
            \<and> contractID q = Some cid \<and> ContractID_String env cid = ident \<longrightarrow>
          ContractInfoQuery_Execute env client q log
            = (Inr (Some (info\<lparr>TokenRelationships := []\<rparr>), None), log'))"
proof -
  have f: "fetchContractInfoTokenRelationships env network ident info log
             = (None, info\<lparr>TokenRelationships := []\<rparr>, log')"
    using resp empty
    by (auto simp: fetchContractInfoTokenRelationships_def Let_def)
  then show ?thesis
    by (auto simp: ContractInfoQuery_Execute_def)
qed

lemma appendTokens_prefix_fails:
  "map (TokenRelationshipFromJson env) good = map Inr trs \<Longrightarrow>
   TokenRelationshipFromJson env bad = Inl e \<Longrightarrow>
   appendTokens env (good @ bad # rest) info
     = (Some e, info\<lparr>TokenRelationships := TokenRelationships info @ trs\<rparr>)"
proof (induction good arbitrary: trs info)
  case Nil
  then show ?case by simp
next
  case (Cons token good)
  from Cons.prems(1) obtain tr trs' where
    trs: "trs = tr # trs'"
    and tr: "TokenRelationshipFromJson env token = Inr tr"
    and rest: "map (TokenRelationshipFromJson env) good = map Inr trs'"
    by (cases trs) auto
  from Cons.IH [OF rest Cons.prems(2)] tr trs show ?case by simp
qed

text \<open>The sample mirror node, asked for the tokens of contract 0.0.5 on the test network.\<close>

lemma contract_env_request:
  "makeGetRequest (contract_env status body)
      ''https://testnet.mirrornode.hedera.com:443/api/v1/accounts/0.0.5/tokens'' []
     = (if 400 \<le> status then Inl (ErrHttpStatus status) else sample_json_Decode body,
        [HttpGet ''https://testnet.mirrornode.hedera.com:443/api/v1/accounts/0.0.5/tokens''])"
  by (simp add: makeGetRequest_def Let_def contract_env_def testnet_not_local
        del: Contains.simps split: sum.splits)

lemma contract_env_query:
  "tokenRelationshipMirrorNodeQuery (contract_env status body) testnet_url ''0.0.5'' []
     = (if 400 \<le> status then Inl (ErrHttpStatus status) else sample_json_Decode body,
        [HttpGet ''https://testnet.mirrornode.hedera.com:443/api/v1/accounts/0.0.5/tokens''])"
  unfolding tokenRelationshipMirrorNodeQuery_def testnet_tokens_url
  by (rule contract_env_request)

lemma contract_env_url:
  "fetchMirrorNodeUrlFromClient (Some sample_client) = Inr testnet_url"
  by (simp add: fetchMirrorNodeUrlFromClient_def sample_client_def testnet_url_def
        HasPrefix_def LOCAL_NETWORK_def API_VERSION_def)

lemma contract_env_consensus:
  "Query_execute (contract_env status body) (Some sample_client) contract_query = Inr ''pb''"
  "ContractInfoFromProtobuf (contract_env status body) ''pb'' = Inr consensus_info"
  "contractID contract_query = Some \<lparr>ContractShard = 0, ContractRealm = 0, ContractNum = 5\<rparr>"
  "ContractID_String (contract_env status body) cid = ''0.0.5''"
  "http_Get (contract_env status body) url = Inr \<lparr>StatusCode = status, Body = body\<rparr>"
  "json_Decode (contract_env status body) = sample_json_Decode"
  "TokenRelationshipFromJson (contract_env status body) = token_decoder"
  by (simp_all add: contract_env_def contract_query_def)

lemma unreachable_env_consensus:
  "Query_execute unreachable_env (Some sample_client) contract_query = Inr ''pb''"
  "ContractInfoFromProtobuf unreachable_env ''pb'' = Inr consensus_info"
  "ContractID_String unreachable_env cid = ''0.0.5''"
  "http_Get unreachable_env url = Inl (ErrExternal ''connection refused'')"
  by (simp_all add: unreachable_env_def contract_env_def)

theorem empty_token_list_enriches_witness:
  "tokenRelationshipMirrorNodeQuery (contract_env 200 no_tokens_body) testnet_url ''0.0.5'' []
     = (Inr no_tokens,
        [HttpGet ''https://testnet.mirrornode.hedera.com:443/api/v1/accounts/0.0.5/tokens''])
   \<and> no_tokens ''tokens'' = Some (JArray [])
   \<and> ContractInfoQuery_Execute (contract_env 200 no_tokens_body)
         (Some sample_client) contract_query []
     = (Inr (Some \<lparr>Consensus = ''contract 0.0.5'', TokenRelationships = []\<rparr>, None),
        [HttpGet ''https://testnet.mirrornode.hedera.com:443/api/v1/accounts/0.0.5/tokens''])"
proof -
  let ?env = "contract_env 200 no_tokens_body"
  let ?cid = "\<lparr>ContractShard = 0, ContractRealm = 0, ContractNum = 5\<rparr>"
  have r: "tokenRelationshipMirrorNodeQuery ?env testnet_url ''0.0.5'' []
             = (Inr no_tokens,
                [HttpGet ''https://testnet.mirrornode.hedera.com:443/api/v1/accounts/0.0.5/tokens''])"
    by (simp add: contract_env_query sample_json_Decode_bodies)
  have t: "no_tokens ''tokens'' = Some (JArray [])"
    by (simp add: no_tokens_def)
  then have e: "no_tokens ''tokens'' = None \<or> no_tokens ''tokens'' = Some JNull
                  \<or> no_tokens ''tokens'' = Some (JArray [])"
    by simp
  have h: "Query_execute ?env (Some sample_client) contract_query = Inr ''pb''
           \<and> ContractInfoFromProtobuf ?env ''pb'' = Inr consensus_info
           \<and> fetchMirrorNodeUrlFromClient (Some sample_client) = Inr testnet_url
           \<and> contractID contract_query = Some ?cid \<and> ContractID_String ?env ?cid = ''0.0.5''"
    by (simp add: contract_env_consensus contract_env_url)
  from empty_token_list_enriches [OF r e, of consensus_info "Some sample_client"
         contract_query "''pb''" ?cid] h
  have "ContractInfoQuery_Execute ?env (Some sample_client) contract_query []
          = (Inr (Some (consensus_info\<lparr>TokenRelationships := []\<rparr>), None),
             [HttpGet ''https://testnet.mirrornode.hedera.com:443/api/v1/accounts/0.0.5/tokens''])"
    by blast
  with r t show ?thesis by (simp add: consensus_info_def)
qed

text \<open>
  Where an error of the enrichment comes from: the request to the mirror node, or a
  token of the decoded list.
\<close>

lemma enrichment_error_origin:
  assumes exec: "Query_execute env client q = Inr pb"
    and dec: "ContractInfoFromProtobuf env pb = Inr info"
    and url: "fetchMirrorNodeUrlFromClient client = Inr network"
    and cid: "contractID q = Some cid"
    and fetch: "fetchContractInfoTokenRelationships env network (ContractID_String env cid) info log
                  = (Some err, info', log')"
  shows "ContractInfoQuery_Execute env client q log = (Inr (Some info', Some err), log')
       \<and> Consensus info' = Consensus info
       \<and> (\<forall>e. fst (tokenRelationshipMirrorNodeQuery env network (ContractID_String env cid) log)
                 = Inl e \<longrightarrow> e = err \<and> info' = info)
       \<and> (\<forall>response.
             fst (tokenRelationshipMirrorNodeQuery env network (ContractID_String env cid) log)
                 = Inr response \<longrightarrow>
             (\<exists>good bad rest trs.
                 response ''tokens'' = Some (JArray (good @ bad # rest))
               \<and> map (TokenRelationshipFromJson env) good = map Inr trs
               \<and> TokenRelationshipFromJson env bad = Inl err
               \<and> TokenRelationships info' = trs))"
proof -
  let ?r = "tokenRelationshipMirrorNodeQuery env network (ContractID_String env cid) log"
  have a: "ContractInfoQuery_Execute env client q log = (Inr (Some info', Some err), log')"
    using exec dec url cid fetch by (simp add: ContractInfoQuery_Execute_def)
  have c: "e = err \<and> info' = info" if "fst ?r = Inl e" for e
    using that fetch
    by (cases ?r) (auto simp: fetchContractInfoTokenRelationships_def)
  have d: "\<exists>good bad rest trs.
                 response ''tokens'' = Some (JArray (good @ bad # rest))
               \<and> map (TokenRelationshipFromJson env) good = map Inr trs
               \<and> TokenRelationshipFromJson env bad = Inl err
               \<and> TokenRelationships info' = trs"
    if "fst ?r = Inr response" for response
  proof -
    from that obtain l where r: "?r = (Inr response, l)" by (cases ?r) auto
    from fetch r obtain tokens where
      t: "response ''tokens'' = Some (JArray tokens)"
      and ap: "appendTokens env tokens (info\<lparr>TokenRelationships := []\<rparr>) = (Some err, info')"
      by (auto simp: fetchContractInfoTokenRelationships_def Let_def
               split: option.splits json.splits prod.splits)
    from appendTokens_fails [OF ap] t show ?thesis by auto
  qed
  have b: "Consensus info' = Consensus info"
  proof (cases "fst ?r")
    case (Inl e)
    with c show ?thesis by simp
  next
    case (Inr response)
    then obtain l where r: "?r = (Inr response, l)" by (cases ?r) auto
    from fetch r obtain tokens where
      ap: "appendTokens env tokens (info\<lparr>TokenRelationships := []\<rparr>) = (Some err, info')"
      by (auto simp: fetchContractInfoTokenRelationships_def Let_def
               split: option.splits json.splits prod.splits)
    from appendTokens_Consensus [OF ap] show ?thesis by simp
  qed
  from a b c d show ?thesis by blast
qed

text \<open>
  C4, as the code has it. When the consensus answer has been obtained and decoded and
  the enrichment then fails, \<^verbatim>\<open>Execute\<close> returns the error together with the info as
  the enrichment left it. If the GET fails, or the response has a status of 400 or
  more, or its body does not decode, the info is the consensus answer unchanged. If the
  body decodes and a token of its list does not, the info is the consensus answer with
  its token relationships replaced by the ones decoded before that token.
\<close>

theorem Execute_partial_enrichment:
  assumes exec: "Query_execute env client q = Inr pb"
    and dec: "ContractInfoFromProtobuf env pb = Inr info"
    and url: "fetchMirrorNodeUrlFromClient client = Inr network"
    and cid: "contractID q = Some cid"
    and target: "u = buildUrlParams network [''accounts'', ContractID_String env cid, ''tokens'']"
  shows "(\<forall>e. http_Get env u = Inl e \<longrightarrow>
            fst (ContractInfoQuery_Execute env client q log) = Inr (Some info, Some e))
       \<and> (\<forall>resp. http_Get env u = Inr resp \<and> 400 \<le> StatusCode resp \<longrightarrow>
            fst (ContractInfoQuery_Execute env client q log)
              = Inr (Some info, Some (ErrHttpStatus (StatusCode resp))))
       \<and> (\<forall>resp e. http_Get env u = Inr resp \<and> StatusCode resp < 400
                  \<and> json_Decode env (Body resp) = Inl e \<longrightarrow>
            fst (ContractInfoQuery_Execute env client q log) = Inr (Some info, Some e))
       \<and> (\<forall>resp response good bad rest trs e.
              http_Get env u = Inr resp \<and> StatusCode resp < 400
            \<and> json_Decode env (Body resp) = Inr response
            \<and> response ''tokens'' = Some (JArray (good @ bad # rest))
            \<and> map (TokenRelationshipFromJson env) good = map Inr trs
            \<and> TokenRelationshipFromJson env bad = Inl e \<longrightarrow>
            fst (ContractInfoQuery_Execute env client q log)
              = Inr (Some (info\<lparr>TokenRelationships := trs\<rparr>), Some e))"
proof -
  have transport: "fst (ContractInfoQuery_Execute env client q log) = Inr (Some info, Some e)"
    if "http_Get env u = Inl e" for e
    using that exec dec url cid target
    by (simp add: ContractInfoQuery_Execute_def fetchContractInfoTokenRelationships_def
          tokenRelationshipMirrorNodeQuery_def makeGetRequest_def Let_def)
  have status: "fst (ContractInfoQuery_Execute env client q log)
                  = Inr (Some info, Some (ErrHttpStatus (StatusCode resp)))"
    if "http_Get env u = Inr resp" and "400 \<le> StatusCode resp" for resp
    using that exec dec url cid target
    by (simp add: ContractInfoQuery_Execute_def fetchContractInfoTokenRelationships_def
          tokenRelationshipMirrorNodeQuery_def makeGetRequest_def Let_def)
  have body: "fst (ContractInfoQuery_Execute env client q log) = Inr (Some info, Some e)"
    if "http_Get env u = Inr resp" and "StatusCode resp < 400"
      and "json_Decode env (Body resp) = Inl e" for resp e
    using that exec dec url cid target
    by (simp add: ContractInfoQuery_Execute_def fetchContractInfoTokenRelationships_def
          tokenRelationshipMirrorNodeQuery_def makeGetRequest_def Let_def)
  have token: "fst (ContractInfoQuery_Execute env client q log)
                 = Inr (Some (info\<lparr>TokenRelationships := trs\<rparr>), Some e)"
    if get: "http_Get env u = Inr resp" and st: "StatusCode resp < 400"
      and js: "json_Decode env (Body resp) = Inr response"
      and tk: "response ''tokens'' = Some (JArray (good @ bad # rest))"
      and gd: "map (TokenRelationshipFromJson env) good = map Inr trs"
      and bd: "TokenRelationshipFromJson env bad = Inl e"
    for resp response good bad rest trs e
  proof -
    have ap: "appendTokens env (good @ bad # rest) (info\<lparr>TokenRelationships := []\<rparr>)
                = (Some e, info\<lparr>TokenRelationships := trs\<rparr>)"
      using appendTokens_prefix_fails [OF gd bd, of rest "info\<lparr>TokenRelationships := []\<rparr>"]
      by simp
    show ?thesis
      using get st js tk exec dec url cid target
      by (simp add: ContractInfoQuery_Execute_def fetchContractInfoTokenRelationships_def
            tokenRelationshipMirrorNodeQuery_def makeGetRequest_def Let_def ap)
  qed
  from transport status body token show ?thesis by blast
qed

lemma half_decodable_tokens:
  "half_decodable ''tokens''
     = Some (JArray ([JObject [(''token_id'', JString ''0.0.7'')]] @ JNumber 1 # []))"
  "token_decoder (JObject [(''token_id'', JString ''0.0.7'')]) = Inr ''0.0.7''"
  "token_decoder (JNumber 1) = Inl (ErrExternal ''invalid token relationship'')"
  by (simp_all add: half_decodable_def token_decoder_def)

theorem Execute_partial_enrichment_witness:
  "fst (ContractInfoQuery_Execute unreachable_env (Some sample_client) contract_query [])
     = Inr (Some consensus_info, Some (ErrExternal ''connection refused''))
   \<and> fst (ContractInfoQuery_Execute (contract_env 500 []) (Some sample_client) contract_query [])
     = Inr (Some consensus_info, Some (ErrHttpStatus 500))
   \<and> fst (ContractInfoQuery_Execute (contract_env 200 []) (Some sample_client) contract_query [])
     = Inr (Some consensus_info, Some (ErrExternal ''EOF''))
   \<and> fst (ContractInfoQuery_Execute (contract_env 200 half_decodable_body) (Some sample_client)
         contract_query [])
     = Inr (Some \<lparr>Consensus = ''contract 0.0.5'', TokenRelationships = [''0.0.7'']\<rparr>,
            Some (ErrExternal ''invalid token relationship''))"
proof -
  let ?u = "''https://testnet.mirrornode.hedera.com:443/api/v1/accounts/0.0.5/tokens''"
  have u: "?u = buildUrlParams testnet_url
                  [''accounts'', ContractID_String (contract_env status body) cid, ''tokens'']"
    for status body cid
    by (simp only: contract_env_consensus testnet_tokens_url)
  have uu: "?u = buildUrlParams testnet_url
                  [''accounts'', ContractID_String unreachable_env cid, ''tokens'']" for cid
    by (simp only: unreachable_env_consensus testnet_tokens_url)
  from Execute_partial_enrichment [OF unreachable_env_consensus(1) unreachable_env_consensus(2)
         contract_env_url contract_env_consensus(3) uu, of "[]"] unreachable_env_consensus(4)
  have a: "fst (ContractInfoQuery_Execute unreachable_env (Some sample_client) contract_query [])
             = Inr (Some consensus_info, Some (ErrExternal ''connection refused''))"
    by blast
  have s5: "http_Get (contract_env 500 []) ?u = Inr \<lparr>StatusCode = 500, Body = []\<rparr>
            \<and> 400 \<le> StatusCode \<lparr>StatusCode = 500, Body = []\<rparr>"
    by (simp add: contract_env_consensus)
  from Execute_partial_enrichment [OF contract_env_consensus(1) contract_env_consensus(2)
         contract_env_url contract_env_consensus(3) u, of 500 "[]" "[]"] s5
  have b: "fst (ContractInfoQuery_Execute (contract_env 500 []) (Some sample_client)
                  contract_query [])
             = Inr (Some consensus_info,
                    Some (ErrHttpStatus (StatusCode \<lparr>StatusCode = 500, Body = []\<rparr>)))"
    by blast
  have s2: "http_Get (contract_env 200 []) ?u = Inr \<lparr>StatusCode = 200, Body = []\<rparr>
            \<and> StatusCode \<lparr>StatusCode = 200, Body = []\<rparr> < 400
            \<and> json_Decode (contract_env 200 []) (Body \<lparr>StatusCode = 200, Body = []\<rparr>)
                = Inl (ErrExternal ''EOF'')"
    by (simp add: contract_env_consensus sample_json_Decode_bodies)
  from Execute_partial_enrichment [OF contract_env_consensus(1) contract_env_consensus(2)
         contract_env_url contract_env_consensus(3) u, of 200 "[]" "[]"] s2
  have c: "fst (ContractInfoQuery_Execute (contract_env 200 []) (Some sample_client)
                  contract_query [])
             = Inr (Some consensus_info, Some (ErrExternal ''EOF''))"
    by blast
  let ?r = "\<lparr>StatusCode = 200, Body = half_decodable_body\<rparr>"
  have sh: "http_Get (contract_env 200 half_decodable_body) ?u = Inr ?r
            \<and> StatusCode ?r < 400
            \<and> json_Decode (contract_env 200 half_decodable_body) (Body ?r) = Inr half_decodable
            \<and> half_decodable ''tokens''
                = Some (JArray ([JObject [(''token_id'', JString ''0.0.7'')]] @ JNumber 1 # []))
            \<and> map (TokenRelationshipFromJson (contract_env 200 half_decodable_body))
                  [JObject [(''token_id'', JString ''0.0.7'')]] = map Inr [''0.0.7'']
            \<and> TokenRelationshipFromJson (contract_env 200 half_decodable_body) (JNumber 1)
                = Inl (ErrExternal ''invalid token relationship'')"
    by (simp add: contract_env_consensus sample_json_Decode_bodies half_decodable_tokens)
  from Execute_partial_enrichment [OF contract_env_consensus(1) contract_env_consensus(2)
         contract_env_url contract_env_consensus(3) u, of 200 half_decodable_body "[]"] sh
  have d: "fst (ContractInfoQuery_Execute (contract_env 200 half_decodable_body)
                  (Some sample_client) contract_query [])
             = Inr (Some (consensus_info\<lparr>TokenRelationships := [''0.0.7'']\<rparr>),
                    Some (ErrExternal ''invalid token relationship''))"
    by blast
  from a b c d show ?thesis by (simp add: consensus_info_def)
qed

text \<open>
  The claim as it was stated fails when the second token of the mirror node's list does
  not decode: the info that comes back with the error carries the first token's
  relationship, which the consensus answer did not.
\<close>

theorem Execute_partial_enrichment_counterexample:
  "ContractInfoFromProtobuf (contract_env 200 half_decodable_body) ''pb'' = Inr consensus_info
   \<and> fst (ContractInfoQuery_Execute (contract_env 200 half_decodable_body) (Some sample_client)
         contract_query [])
     = Inr (Some \<lparr>Consensus = ''contract 0.0.5'', TokenRelationships = [''0.0.7'']\<rparr>,
            Some (ErrExternal ''invalid token relationship''))
   \<and> \<lparr>Consensus = ''contract 0.0.5'', TokenRelationships = [''0.0.7'']\<rparr> \<noteq> consensus_info"
proof -
  have q: "tokenRelationshipMirrorNodeQuery (contract_env 200 half_decodable_body) testnet_url
             ''0.0.5'' []
           = (Inr half_decodable,
              [HttpGet ''https://testnet.mirrornode.hedera.com:443/api/v1/accounts/0.0.5/tokens''])"
    by (simp add: contract_env_query sample_json_Decode_bodies)
  have f: "fetchContractInfoTokenRelationships (contract_env 200 half_decodable_body) testnet_url
             ''0.0.5'' consensus_info []
           = (Some (ErrExternal ''invalid token relationship''),
              consensus_info\<lparr>TokenRelationships := [''0.0.7'']\<rparr>,
              [HttpGet ''https://testnet.mirrornode.hedera.com:443/api/v1/accounts/0.0.5/tokens''])"
    by (simp add: fetchContractInfoTokenRelationships_def q half_decodable_def
          contract_env_consensus token_decoder_def)
  have "fst (ContractInfoQuery_Execute (contract_env 200 half_decodable_body) (Some sample_client)
               contract_query [])
          = Inr (Some (consensus_info\<lparr>TokenRelationships := [''0.0.7'']\<rparr>),
                 Some (ErrExternal ''invalid token relationship''))"
    by (simp add: ContractInfoQuery_Execute_def contract_env_consensus contract_env_url f)
  then show ?thesis
    by (simp add: contract_env_consensus consensus_info_def)
qed

section \<open>Text encoding of keys\<close>

lemma nibble_cases:
  "k < 16 \<Longrightarrow>
     k = 0 \<or> k = 1 \<or> k = 2 \<or> k = 3 \<or> k = 4 \<or> k = 5 \<or> k = 6 \<or> k = 7
   \<or> k = 8 \<or> k = 9 \<or> k = 10 \<or> k = 11 \<or> k = 12 \<or> k = 13 \<or> k = 14 \<or> k = (15 :: nat)"
  by arith

lemma fromHexChar_hextable: "k < 16 \<Longrightarrow> fromHexChar (hextable ! k) = Some (of_nat k)"
  by (drule nibble_cases, elim disjE) (simp_all add: hextable_def fromHexChar_def Let_def)

lemma ToLower_char_hextable: "k < 16 \<Longrightarrow> ToLower_char (hextable ! k) = hextable ! k"
  by (drule nibble_cases, elim disjE) (simp_all add: hextable_def ToLower_char_def Let_def)

lemma byte_nibbles: "push_bit 4 (drop_bit 4 v) OR (v AND 15) = (v :: byte)"
proof -
  have "(15 :: byte) = mask 4" by (simp add: mask_eq_exp_minus_1)
  then show ?thesis
    by (simp add: bit_eq_iff bit_simps) (auto simp: bit_simps)
qed

lemma high_nibble_less: "unat (drop_bit 4 (v :: byte)) < 16"
proof -
  have "unat v < 256" using unsigned_less [of v, where 'a = nat] by simp
  then have "unat v div 2 ^ 4 < 16" by simp
  then show ?thesis by (simp add: drop_bit_eq_div unat_div)
qed

lemma low_nibble_less: "unat ((v :: byte) AND 15) < 16"
proof -
  have "(15 :: byte) = mask 4" by (simp add: mask_eq_exp_minus_1)
  then have "v AND 15 = take_bit 4 v" by (simp add: take_bit_eq_mask)
  moreover have "take_bit 4 (unat v) < 2 ^ 4" by (rule take_bit_nat_less_exp)
  ultimately show ?thesis by (simp add: unsigned_take_bit_eq)
qed

lemma hex_roundtrip: "hex_DecodeString (hex_EncodeToString bs) = (bs, None)"
proof (induction bs)
  case Nil
  show ?case by simp
next
  case (Cons v bs)
  have hi: "fromHexChar (hextable ! unat (drop_bit 4 v)) = Some (drop_bit 4 v)"
    using fromHexChar_hextable [OF high_nibble_less, of v] by simp
  have lo: "fromHexChar (hextable ! unat (v AND 15)) = Some (v AND 15)"
    using fromHexChar_hextable [OF low_nibble_less, of v] by simp
  show ?case
    by (simp add: hi lo Cons.IH byte_nibbles)
qed

lemma ToLower_hex: "ToLower (hex_EncodeToString bs) = hex_EncodeToString bs"
  by (induction bs)
     (simp_all add: ToLower_def ToLower_char_hextable high_nibble_less low_nibble_less)

lemma length_hex: "length (hex_EncodeToString bs) = 2 * length bs"
  by (induction bs) simp_all

lemma ToLower_append: "ToLower (a @ b) = ToLower a @ ToLower b"
  by (simp add: ToLower_def)

lemma ToLower_private_prefix: "ToLower ed25519PrivateKeyPrefix = ed25519PrivateKeyPrefix"
  by (simp add: ToLower_def ToLower_char_def ed25519PrivateKeyPrefix_def)

lemma ToLower_public_prefix: "ToLower ed25519PubKeyPrefix = ed25519PubKeyPrefix"
  by (simp add: ToLower_def ToLower_char_def ed25519PubKeyPrefix_def)

lemma TrimPrefix_append: "TrimPrefix (p @ s) p = s"
  by (simp add: TrimPrefix_def HasPrefix_def)

lemma PrivateKeyFromBytes_seed:
  "length seed = 32 \<Longrightarrow>
     PrivateKeyFromBytes pub seed = Inr (Inr \<lparr>keyData = seed @ pub seed, chainCode = None\<rparr>)"
  by (simp add: PrivateKeyFromBytes_def NewKeyFromSeed_def)

lemma PrivateKeyFromString_of_seed:
  assumes "length seed = 32"
  shows "PrivateKeyFromString pub (ed25519PrivateKeyPrefix @ hex_EncodeToString seed)
           = Inr (Inr \<lparr>keyData = seed @ pub seed, chainCode = None\<rparr>)"
proof -
  have len: "length (ed25519PrivateKeyPrefix @ hex_EncodeToString seed) = 96"
    using assms by (simp add: length_hex ed25519PrivateKeyPrefix_def)
  have low: "ToLower (ed25519PrivateKeyPrefix @ hex_EncodeToString seed)
               = ed25519PrivateKeyPrefix @ hex_EncodeToString seed"
    by (simp add: ToLower_append ToLower_private_prefix ToLower_hex)
  show ?thesis
    unfolding PrivateKeyFromString_def Let_def len low TrimPrefix_append hex_roundtrip
    by (simp add: PrivateKeyFromBytes_seed [OF assms])
qed

lemma PublicKeyFromString_of_bytes:
  assumes "length bs = 32"
  shows "PublicKeyFromString (ed25519PubKeyPrefix @ hex_EncodeToString bs)
           = Inr \<lparr>pubKeyData = bs\<rparr>"
proof -
  have len: "length (ed25519PubKeyPrefix @ hex_EncodeToString bs) = 88"
    using assms by (simp add: length_hex ed25519PubKeyPrefix_def)
  have low: "ToLower (ed25519PubKeyPrefix @ hex_EncodeToString bs)
               = ed25519PubKeyPrefix @ hex_EncodeToString bs"
    by (simp add: ToLower_append ToLower_public_prefix ToLower_hex)
  show ?thesis
    unfolding PublicKeyFromString_def Let_def len low TrimPrefix_append hex_roundtrip
    by simp
qed

text \<open>
  C9. A private key made from a 32-byte seed (its key bytes are the seed followed by
  the public key) has a text form, and \<^verbatim>\<open>PrivateKeyFromString\<close> of that text succeeds
  with a key of the same key bytes. A public key of 32 bytes is what
  \<^verbatim>\<open>PublicKeyFromString\<close> returns for its text form.
\<close>

theorem key_string_roundtrip:
  "(length seed = 32 \<and> keyData sk = seed @ pub seed \<longrightarrow>
      (\<exists>str sk'. PrivateKey_String sk = Inr str
                \<and> PrivateKeyFromString pub str = Inr (Inr sk')
                \<and> keyData sk' = keyData sk))
   \<and> (length (pubKeyData pk) = 32 \<longrightarrow>
        PublicKeyFromString (PublicKey_String pk) = Inr pk)"
proof -
  have priv: "\<exists>str sk'. PrivateKey_String sk = Inr str
                \<and> PrivateKeyFromString pub str = Inr (Inr sk')
                \<and> keyData sk' = keyData sk"
    if l: "length seed = 32" and k: "keyData sk = seed @ pub seed"
  proof -
    have s: "PrivateKey_String sk = Inr (ed25519PrivateKeyPrefix @ hex_EncodeToString seed)"
      using l k by (simp add: PrivateKey_String_def)
    from PrivateKeyFromString_of_seed [OF l, of pub] s k show ?thesis by simp
  qed
  have publ: "PublicKeyFromString (PublicKey_String pk) = Inr pk"
    if "length (pubKeyData pk) = 32"
    using PublicKeyFromString_of_bytes [OF that] by (simp add: PublicKey_String_def)
  from priv publ show ?thesis by blast
qed

lemma operator_seed_text:
  "hex_EncodeToString operator_seed
     = ''91132178e72057a1d7528025956fe39b0b847f200ab59b2fdd367017f3087137''"
  by (simp add: operator_seed_def hextable_def drop_bit_eq_div)

lemma operator_key_String: "PrivateKey_String operator_key = Inr operator_key_text"
proof -
  have "take 32 (keyData operator_key) = operator_seed"
    by (simp add: operator_key_def operator_seed_def)
  moreover have "\<not> length (keyData operator_key) < 32"
    by (simp add: operator_key_def operator_seed_def)
  ultimately show ?thesis
    by (simp add: PrivateKey_String_def operator_seed_text operator_key_text_def
          ed25519PrivateKeyPrefix_def)
qed

theorem key_string_roundtrip_witness:
  "length operator_seed = 32
   \<and> keyData operator_key = operator_seed @ sample_pub operator_seed
   \<and> PrivateKey_String operator_key = Inr operator_key_text
   \<and> (\<exists>sk'. PrivateKeyFromString sample_pub operator_key_text = Inr (Inr sk')
           \<and> keyData sk' = keyData operator_key)
   \<and> length (pubKeyData \<lparr>pubKeyData = sample_pub operator_seed\<rparr>) = 32
   \<and> PublicKeyFromString (PublicKey_String \<lparr>pubKeyData = sample_pub operator_seed\<rparr>)
       = Inr \<lparr>pubKeyData = sample_pub operator_seed\<rparr>"
proof -
  let ?pk = "\<lparr>pubKeyData = sample_pub operator_seed\<rparr>"
  have l: "length operator_seed = 32" by (simp add: operator_seed_def)
  have k: "keyData operator_key = operator_seed @ sample_pub operator_seed"
    by (simp add: operator_key_def)
  have p: "length (pubKeyData ?pk) = 32" by (simp add: sample_pub_def l)
  from key_string_roundtrip [of operator_seed operator_key sample_pub ?pk] l k p
  have r: "(\<exists>str sk'. PrivateKey_String operator_key = Inr str
                \<and> PrivateKeyFromString sample_pub str = Inr (Inr sk')
                \<and> keyData sk' = keyData operator_key)"
    and q: "PublicKeyFromString (PublicKey_String ?pk) = Inr ?pk"
    by blast+
  from r have "\<exists>sk'. PrivateKeyFromString sample_pub operator_key_text = Inr (Inr sk')
                 \<and> keyData sk' = keyData operator_key"
    by (simp add: operator_key_String)
  with l k p q operator_key_String show ?thesis by blast
qed

end
